theory Spec2Isabelle
  imports Complex_Main "HOL-Library.Word"
begin

section \<open>Values\<close>

text \<open>
  A native identifier of the document store (\<^verbatim>\<open>bson.ObjectId\<close>) is the byte string it
  holds in its \<^verbatim>\<open>binary\<close> attribute.
\<close>

datatype objectid = Oid (binary: "8 word list")

text \<open>
  The Python values the handlers see: what the store decodes a document into and what a
  handler returns for JSON encoding. A \<^verbatim>\<open>dict\<close> keeps its items in insertion order, so it
  is an association list; a lookup finds the first item with the key. A \<^verbatim>\<open>float\<close> is held
  by the decimal its literal denotes (the only one in the program is \<^verbatim>\<open>0.7\<close>).
  The datatype has finite, acyclic values only.
\<close>

datatype pyval =
    PNone
  | PBool bool
  | PInt int
  | PFloat rat
  | PStr string
  | PObjectId objectid
  | PList "pyval list"
  | PDict "(string \<times> pyval) list"

type_synonym document = "(string \<times> pyval) list"

section \<open>The identifier type of the store\<close>

text \<open>
  \<^verbatim>\<open>ObjectId(s)\<close> for a string \<^verbatim>\<open>s\<close> (package \<^verbatim>\<open>bson\<close>): a string of length
  24 is handed to \<^verbatim>\<open>bytes.fromhex\<close>, and \<^verbatim>\<open>InvalidId\<close> is raised when the length is
  another one or \<^verbatim>\<open>fromhex\<close> raises. \<^verbatim>\<open>bytes.fromhex\<close> reads two hexadecimal digits
  of either case per byte and skips ASCII whitespace between bytes. \<^verbatim>\<open>None\<close> here is the
  raised \<^verbatim>\<open>InvalidId\<close>. A character outside ASCII is no digit and no whitespace, so a
  string holding one is refused whatever its length.
\<close>

definition isspace :: "char \<Rightarrow> bool" where
  "isspace c = (let n = (of_char c :: nat) in (9 \<le> n \<and> n \<le> 13) \<or> n = 32)"

definition digit_value :: "char \<Rightarrow> nat option" where
  "digit_value c =
     (let n = (of_char c :: nat) in
      if 48 \<le> n \<and> n \<le> 57 then Some (n - 48)
      else if 97 \<le> n \<and> n \<le> 102 then Some (n - 87)
      else if 65 \<le> n \<and> n \<le> 70 then Some (n - 55)
      else None)"

fun fromhex :: "string \<Rightarrow> 8 word list option" where
  "fromhex [] = Some []"
| "fromhex (c # cs) =
     (if isspace c then fromhex cs
      else (case digit_value c of
              None \<Rightarrow> None
            | Some hi \<Rightarrow>
                (case cs of
                   [] \<Rightarrow> None
                 | d # ds \<Rightarrow>
                     (case digit_value d of
                        None \<Rightarrow> None
                      | Some lo \<Rightarrow> map_option (Cons (of_nat (hi * 16 + lo))) (fromhex ds)))))"

definition ObjectId :: "string \<Rightarrow> objectid option" where
  "ObjectId oid =
     (if length oid = 24
      then (case fromhex oid of None \<Rightarrow> None | Some b \<Rightarrow> Some (Oid b))
      else None)"

text \<open>
  \<^verbatim>\<open>str(oid)\<close> is \<^verbatim>\<open>binascii.hexlify\<close> of the bytes: two digits of
  \<^verbatim>\<open>0123456789abcdef\<close> per byte, the high half first.
\<close>

definition hexdigits :: string where
  "hexdigits = ''0123456789abcdef''"

definition hexlify :: "8 word list \<Rightarrow> string" where
  "hexlify bs = concat (map (\<lambda>b. [hexdigits ! (unat b div 16), hexdigits ! (unat b mod 16)]) bs)"

definition str_ObjectId :: "objectid \<Rightarrow> string" where
  "str_ObjectId oid = hexlify (binary oid)"

section \<open>Identifier normalization\<close>

text \<open>
  \<^verbatim>\<open>convert_objectid\<close>, one equation per branch of the source in the source's order:
  a list, a dict, an \<^verbatim>\<open>ObjectId\<close>, anything else.
\<close>

fun convert_objectid :: "pyval \<Rightarrow> pyval" where
  "convert_objectid (PList data) = PList (map convert_objectid data)"
| "convert_objectid (PDict data) =
     PDict (map (\<lambda>(key, value). (key, convert_objectid value)) data)"
| "convert_objectid (PObjectId data) = PStr (str_ObjectId data)"
| "convert_objectid data = data"

text \<open>
  The same function with the depth of the interpreter's call stack written out: every
  call uses one frame of the \<open>n\<close> available, and \<open>None\<close> is the call that finds none
  left (Python's \<^verbatim>\<open>RecursionError\<close>).
\<close>

fun convert_objectid_fuel :: "nat \<Rightarrow> pyval \<Rightarrow> pyval option" where
  "convert_objectid_fuel 0 data = None"
| "convert_objectid_fuel (Suc n) (PList data) =
     map_option PList (those (map (convert_objectid_fuel n) data))"
| "convert_objectid_fuel (Suc n) (PDict data) =
     map_option PDict
       (those (map (\<lambda>(key, value). map_option (Pair key) (convert_objectid_fuel n value)) data))"
| "convert_objectid_fuel (Suc n) (PObjectId data) = Some (PStr (str_ObjectId data))"
| "convert_objectid_fuel (Suc n) data = Some data"

text \<open>The nesting depth of a document: the frames a call on it needs.\<close>

fun depth :: "pyval \<Rightarrow> nat" where
  "depth (PList data) = Suc (foldr max (map depth data) 0)"
| "depth (PDict data) = Suc (foldr max (map (\<lambda>(key, value). depth value) data) 0)"
| "depth data = Suc 0"

text \<open>Whether a native identifier occurs anywhere in a document.\<close>

fun has_objectid :: "pyval \<Rightarrow> bool" where
  "has_objectid (PList data) = list_ex has_objectid data"
| "has_objectid (PDict data) = list_ex (\<lambda>(key, value). has_objectid value) data"
| "has_objectid (PObjectId data) = True"
| "has_objectid data = False"

text \<open>The scalars that are not native identifiers.\<close>

fun other_scalar :: "pyval \<Rightarrow> bool" where
  "other_scalar (PList data) = False"
| "other_scalar (PDict data) = False"
| "other_scalar (PObjectId data) = False"
| "other_scalar data = True"

section \<open>Errors and responses\<close>

text \<open>
  \<^verbatim>\<open>HTTPException(status_code, detail)\<close> of the framework, and the exceptions that can
  leave a handler: an \<^verbatim>\<open>HTTPException\<close>, or an uncaught error of the interpreter.
\<close>

datatype http_exception = HTTPException (status_code: int) (detail: string)

datatype failure = Http http_exception | KeyError string | TypeError

text \<open>
  The status the client sees: 200 when the handler returns, the exception's own status
  for an \<^verbatim>\<open>HTTPException\<close>, 500 for an uncaught error.
\<close>

fun http_status :: "failure + pyval \<Rightarrow> int" where
  "http_status (Inr body) = 200"
| "http_status (Inl (Http e)) = status_code e"
| "http_status (Inl e) = 500"

section \<open>Job lookup\<close>

text \<open>
  Modelled from the spec: the collection handle \<^verbatim>\<open>db.jobs\<close> comes from the repository's
  \<^verbatim>\<open>database\<close> module, which is not among the sources. The spec has the store "find
  one document by identifier": the query \<^verbatim>\<open>{"_id": object_id}\<close> answers with the first
  stored document whose \<^verbatim>\<open>_id\<close> equals the identifier, or with \<^verbatim>\<open>None\<close>.
\<close>

definition find_one :: "document list \<Rightarrow> objectid \<Rightarrow> document option" where
  "find_one jobs object_id =
     find (\<lambda>doc. map_of doc ''_id'' = Some (PObjectId object_id)) jobs"

text \<open>
  \<^verbatim>\<open>get_job_details\<close>. The first argument is what \<^verbatim>\<open>db.jobs.find_one\<close> answers to
  the query for an identifier; the result is paired with the identifiers the handler
  queried the store for, in order. \<^verbatim>\<open>not job\<close> holds of \<^verbatim>\<open>None\<close> and of the empty
  dict. Subscripting raises \<^verbatim>\<open>TypeError\<close> on a value that is no dict and \<^verbatim>\<open>KeyError\<close>
  on a missing key; neither is caught.
\<close>

definition get_job_details ::
  "(objectid \<Rightarrow> document option) \<Rightarrow> string \<Rightarrow> (failure + pyval) \<times> objectid list" where
  "get_job_details find_one_jobs ident =
     (case ObjectId ident of
        None \<Rightarrow> (Inl (Http (HTTPException 400 ''Invalid job ID'')), [])
      | Some object_id \<Rightarrow>
          (case find_one_jobs object_id of
             None \<Rightarrow> (Inl (Http (HTTPException 404 ''Job not found'')), [object_id])
           | Some doc \<Rightarrow>
               if doc = [] then (Inl (Http (HTTPException 404 ''Job not found'')), [object_id])
               else
                 (case convert_objectid (PDict doc) of
                    PDict job \<Rightarrow>
                      (case map_of job ''_id'' of
                         None \<Rightarrow> (Inl (KeyError ''_id''), [object_id])
                       | Some job_id \<Rightarrow>
                           (Inr (PDict
                              [(''job_id'', job_id),
                               (''title'',
                                  case map_of job ''jobTitle'' of None \<Rightarrow> PNone | Some v \<Rightarrow> v),
                               (''description'',
                                  case map_of job ''plainTextJobDescription'' of
                                    None \<Rightarrow> PNone | Some v \<Rightarrow> v),
                               (''questions'',
                                  case map_of job ''questions'' of
                                    None \<Rightarrow> PList [] | Some v \<Rightarrow> v)]),
                            [object_id]))
                  | _ \<Rightarrow> (Inl TypeError, [object_id]))))"

section \<open>Completion proxy\<close>

record Message =
  role :: string
  content :: string

record OpenAIRequest =
  model :: string
  max_tokens :: int
  messages :: "Message list"

text \<open>
  The constructor of \<^verbatim>\<open>OpenAIRequest\<close> with the defaults of the class: \<open>None\<close> is a
  field the client left out. The class has no other field, so nothing else the client
  sends reaches the handler.
\<close>

definition OpenAIRequest_init ::
  "string option \<Rightarrow> int option \<Rightarrow> Message list \<Rightarrow> OpenAIRequest" where
  "OpenAIRequest_init m t msgs =
     \<lparr>model = (case m of None \<Rightarrow> ''gpt-4o'' | Some x \<Rightarrow> x),
      max_tokens = (case t of None \<Rightarrow> 1000 | Some x \<Rightarrow> x),
      messages = msgs\<rparr>"

text \<open>
  The process configuration: \<^verbatim>\<open>OPENAI_API_KEY\<close> (startup fails without it) and
  \<^verbatim>\<open>OPENAI_API_URL\<close> (\<open>None\<close> when the variable is not set).
\<close>

record config =
  OPENAI_API_KEY :: string
  OPENAI_API_URL :: "string option"

text \<open>What \<^verbatim>\<open>client.post\<close> is called with.\<close>

record outbound =
  url :: "string option"
  headers :: "(string \<times> string) list"
  json_payload :: pyval
  timeout :: rat

text \<open>
  The upstream's reply as the handler reads it: \<^verbatim>\<open>status_code\<close>, \<^verbatim>\<open>text\<close>
  and what \<^verbatim>\<open>json()\<close> does, which returns the decoded body or raises an exception
  (\<open>Inl\<close> with its message).
\<close>

record response =
  resp_status_code :: int
  resp_text :: string
  resp_json :: "string + pyval"

text \<open>
  The exceptions raised inside the \<^verbatim>\<open>try\<close> block: the handler's own
  \<^verbatim>\<open>HTTPException\<close>, an \<^verbatim>\<open>httpx.RequestError\<close> with its message, any other
  \<^verbatim>\<open>Exception\<close> with its message.
\<close>

datatype exn = Raised http_exception | RequestError string | OtherException string

definition payload :: "OpenAIRequest \<Rightarrow> pyval" where
  "payload request =
     PDict
       [(''model'', PStr (model request)),
        (''messages'',
           PList (map (\<lambda>msg. PDict [(''role'', PStr (role msg)), (''content'', PStr (content msg))])
                    (messages request))),
        (''max_tokens'', PInt (max_tokens request)),
        (''temperature'', PFloat (7 / 10))]"

definition outbound_request :: "config \<Rightarrow> OpenAIRequest \<Rightarrow> outbound" where
  "outbound_request cfg request =
     \<lparr>url = OPENAI_API_URL cfg,
      headers = [(''Authorization'', ''Bearer '' @ OPENAI_API_KEY cfg),
                 (''Content-Type'', ''application/json'')],
      json_payload = payload request,
      timeout = 60\<rparr>"

text \<open>
  The body of the \<^verbatim>\<open>try\<close> block. \<open>post\<close> is the upstream as \<^verbatim>\<open>client.post\<close>
  reaches it: it raises or answers.
\<close>

definition try_block ::
  "config \<Rightarrow> (outbound \<Rightarrow> exn + response) \<Rightarrow> OpenAIRequest \<Rightarrow> exn + pyval" where
  "try_block cfg post request =
     (case post (outbound_request cfg request) of
        Inl e \<Rightarrow> Inl e
      | Inr response \<Rightarrow>
          if resp_status_code response \<noteq> 200
          then Inl (Raised (HTTPException (resp_status_code response)
                              (''OpenAI API error: '' @ resp_text response)))
          else (case resp_json response of
                  Inl msg \<Rightarrow> Inl (OtherException msg)
                | Inr body \<Rightarrow> Inr body))"

text \<open>
  \<^verbatim>\<open>openai_proxy\<close>: the \<^verbatim>\<open>try\<close> block under its two handlers, in the source's order.
  \<^verbatim>\<open>HTTPException\<close> is an \<^verbatim>\<open>Exception\<close> and no \<^verbatim>\<open>RequestError\<close>, so the one raised
  inside the block is caught by the second handler. \<open>str_http\<close> is what \<^verbatim>\<open>str\<close> prints
  for an \<^verbatim>\<open>HTTPException\<close> of a given status and detail, which depends on the installed
  framework. The result is paired with the calls of \<^verbatim>\<open>client.post\<close> the handler made.
\<close>

definition openai_proxy ::
  "config \<Rightarrow> (int \<Rightarrow> string \<Rightarrow> string) \<Rightarrow> (outbound \<Rightarrow> exn + response) \<Rightarrow> OpenAIRequest
     \<Rightarrow> (failure + pyval) \<times> outbound list" where
  "openai_proxy cfg str_http post request =
     (case try_block cfg post request of
        Inr body \<Rightarrow> Inr body
      | Inl (RequestError msg) \<Rightarrow>
          Inl (Http (HTTPException 500 (''Failed to connect to OpenAI API: '' @ msg)))
      | Inl (Raised (HTTPException s d)) \<Rightarrow>
          Inl (Http (HTTPException 500 (''Internal server error: '' @ str_http s d)))
      | Inl (OtherException msg) \<Rightarrow>
          Inl (Http (HTTPException 500 (''Internal server error: '' @ msg))),
      [outbound_request cfg request])"

section \<open>Properties of identifier normalization\<close>

lemma those_map_Some: "(\<And>x. x \<in> set xs \<Longrightarrow> f x = Some (g x)) \<Longrightarrow> those (map f xs) = Some (map g xs)"
  by (induction xs) simp_all

lemma foldr_max_ge: "x \<in> set ns \<Longrightarrow> x \<le> foldr max ns (0::nat)"
  by (induction ns) auto

lemma convert_objectid_fuel_enough: "depth d \<le> n \<Longrightarrow> convert_objectid_fuel n d = Some (convert_objectid d)"
proof (induction d arbitrary: n)
  case (PList xs)
  then obtain m where n: "n = Suc m" by (cases n) auto
  have "those (map (convert_objectid_fuel m) xs) = Some (map convert_objectid xs)"
  proof (rule those_map_Some)
    fix x assume x: "x \<in> set xs"
    then have "depth x \<le> foldr max (map depth xs) 0" by (intro foldr_max_ge) simp
    with PList.prems n have "depth x \<le> m" by simp
    with PList.IH x show "convert_objectid_fuel m x = Some (convert_objectid x)" by blast
  qed
  with n show ?case by simp
next
  case (PDict kvs)
  then obtain m where n: "n = Suc m" by (cases n) auto
  have "those (map (\<lambda>(key, value). map_option (Pair key) (convert_objectid_fuel m value)) kvs)
      = Some (map (\<lambda>(key, value). (key, convert_objectid value)) kvs)"
  proof (rule those_map_Some)
    fix kv assume kv: "kv \<in> set kvs"
    obtain k v where [simp]: "kv = (k, v)" by (cases kv)
    from kv have "depth v \<le> foldr max (map (\<lambda>(key, value). depth value) kvs) 0"
      by (intro foldr_max_ge) force
    with PDict.prems n have "depth v \<le> m" by simp
    moreover from kv have "v \<in> Basic_BNFs.snds kv" by simp
    ultimately have "convert_objectid_fuel m v = Some (convert_objectid v)"
      using PDict.IH kv by blast
    then show "(case kv of (key, value) \<Rightarrow> map_option (Pair key) (convert_objectid_fuel m value))
       = Some (case kv of (key, value) \<Rightarrow> (key, convert_objectid value))" by simp
  qed
  with n show ?case by simp
qed (case_tac n; simp)+

lemma convert_objectid_idem: "convert_objectid (convert_objectid d) = convert_objectid d"
  by (induction d) (auto)

lemma convert_objectid_noop: "\<not> has_objectid d \<Longrightarrow> convert_objectid d = d"
proof (induction d)
  case (PList xs)
  then have "map convert_objectid xs = xs"
    by (intro map_idI) (simp add: list_ex_iff)
  then show ?case by simp
next
  case (PDict kvs)
  have "map (\<lambda>(key, value). (key, convert_objectid value)) kvs = kvs"
  proof (rule map_idI)
    fix kv assume kv: "kv \<in> set kvs"
    obtain k v where eq: "kv = (k, v)" by (cases kv)
    with kv PDict.prems have "\<not> has_objectid v" by (auto simp: list_ex_iff)
    with PDict.IH [of kv v] kv eq have "convert_objectid v = v" by simp
    with eq show "(case kv of (key, value) \<Rightarrow> (key, convert_objectid value)) = kv" by simp
  qed
  then show ?case by simp
qed simp_all

text \<open>
  C6: on every document, normalization of a sequence is the sequence of the normalized
  elements (same length, same order); of a mapping, a mapping with the same keys in the
  same order, each value normalized; of a native identifier, its string form; and any
  other scalar is returned unchanged.
\<close>

theorem convert_objectid_shapes:
  "(\<exists>ys. convert_objectid (PList xs) = PList ys \<and> length ys = length xs \<and>
         (\<forall>i<length xs. ys ! i = convert_objectid (xs ! i))) \<and>
   (\<exists>items. convert_objectid (PDict kvs) = PDict items \<and> map fst items = map fst kvs \<and>
         map snd items = map (\<lambda>kv. convert_objectid (snd kv)) kvs) \<and>
   convert_objectid (PObjectId oid) = PStr (str_ObjectId oid) \<and>
   (other_scalar d \<longrightarrow> convert_objectid d = d)"
proof -
  have "map fst (map (\<lambda>(key, value). (key, convert_objectid value)) kvs) = map fst kvs"
    by (induction kvs) auto
  moreover have "map snd (map (\<lambda>(key, value). (key, convert_objectid value)) kvs)
      = map (\<lambda>kv. convert_objectid (snd kv)) kvs"
    by (induction kvs) auto
  moreover have "other_scalar d \<Longrightarrow> convert_objectid d = d"
    by (cases d) simp_all
  ultimately show ?thesis by simp
qed

theorem convert_objectid_shapes_witness:
  "convert_objectid (PList [PObjectId (Oid [171, 1]), PInt 3, PList [PObjectId (Oid [])]])
     = PList [PStr ''ab01'', PInt 3, PList [PStr []]] \<and>
   convert_objectid (PDict [(''_id'', PObjectId (Oid [255])), (''jobTitle'', PStr ''Engineer'')])
     = PDict [(''_id'', PStr ''ff''), (''jobTitle'', PStr ''Engineer'')] \<and>
   convert_objectid (PObjectId (Oid [16, 32])) = PStr ''1020'' \<and>
   other_scalar (PStr ''Engineer'') \<and> convert_objectid (PStr ''Engineer'') = PStr ''Engineer''"
  using convert_objectid_shapes
    [of "[PObjectId (Oid [171, 1]), PInt 3, PList [PObjectId (Oid [])]]"
        "[(''_id'', PObjectId (Oid [255])), (''jobTitle'', PStr ''Engineer'')]"
        "Oid [16, 32]" "PStr ''Engineer''"]
  by (simp add: str_ObjectId_def hexlify_def hexdigits_def)

text \<open>
  C7: normalizing twice is normalizing once, and a document in which no native identifier
  occurs is returned as it is.
\<close>

theorem convert_objectid_idempotent_noop:
  "convert_objectid (convert_objectid d) = convert_objectid d \<and>
   (\<not> has_objectid d \<longrightarrow> convert_objectid d = d)"
  using convert_objectid_idem convert_objectid_noop by blast

theorem convert_objectid_idempotent_noop_witness:
  "convert_objectid (convert_objectid (PDict [(''_id'', PObjectId (Oid [255]))]))
     = convert_objectid (PDict [(''_id'', PObjectId (Oid [255]))]) \<and>
   \<not> has_objectid (PDict [(''questions'', PList [PDict [(''questionText'', PStr ''Why?'')]])]) \<and>
   convert_objectid (PDict [(''questions'', PList [PDict [(''questionText'', PStr ''Why?'')]])])
     = PDict [(''questions'', PList [PDict [(''questionText'', PStr ''Why?'')]])]"
  using convert_objectid_idempotent_noop [of "PDict [(''_id'', PObjectId (Oid [255]))]"]
    convert_objectid_idempotent_noop
      [of "PDict [(''questions'', PList [PDict [(''questionText'', PStr ''Why?'')]])]"]
  by simp

text \<open>
  C8: normalization terminates on every finite, acyclic document: a call with at least
  as many stack frames as the document is deep returns, and returns the value of the
  total function.
\<close>

theorem convert_objectid_terminates:
  "convert_objectid_fuel (depth d + k) d = Some (convert_objectid d)"
  by (rule convert_objectid_fuel_enough) simp

theorem convert_objectid_terminates_witness:
  "convert_objectid_fuel 3 (PDict [(''questions'', PList [PObjectId (Oid [255])])])
     = Some (PDict [(''questions'', PList [PStr ''ff''])])"
  using convert_objectid_terminates [of "PDict [(''questions'', PList [PObjectId (Oid [255])])]" 0]
  by (simp add: numeral_3_eq_3 str_ObjectId_def hexlify_def hexdigits_def)

section \<open>Properties of the job lookup\<close>

lemma set_hexlify: "set (hexlify bs) \<subseteq> set hexdigits"
proof -
  have "hexdigits ! n \<in> set hexdigits" if "n < 16" for n
    using that by (intro nth_mem) (simp add: hexdigits_def)
  moreover have "unat b div 16 < 16" for b :: "8 word"
    using unsigned_less [of b, where ?'a = nat] by simp
  ultimately show ?thesis by (auto simp: hexlify_def)
qed

lemma find_one_id: "find_one jobs oid = Some R \<Longrightarrow> map_of R ''_id'' = Some (PObjectId oid)"
  by (auto simp: find_one_def find_Some_iff)

lemma map_of_convert:
  "map_of (map (\<lambda>(key, value). (key, convert_objectid value)) kvs) k
     = map_option convert_objectid (map_of kvs k)"
  by (simp add: map_of_map)

lemma get_job_details_found:
  assumes "ObjectId ident = Some oid" and "q oid = Some R"
    and "map_of R ''_id'' = Some (PObjectId oid)"
  shows "get_job_details q ident =
     (Inr (PDict
        [(''job_id'', PStr (str_ObjectId oid)),
         (''title'', case map_of R ''jobTitle'' of None \<Rightarrow> PNone | Some v \<Rightarrow> convert_objectid v),
         (''description'',
            case map_of R ''plainTextJobDescription'' of None \<Rightarrow> PNone | Some v \<Rightarrow> convert_objectid v),
         (''questions'',
            case map_of R ''questions'' of None \<Rightarrow> PList [] | Some v \<Rightarrow> convert_objectid v)]),
      [oid])"
proof -
  from assms(3) have "R \<noteq> []" by auto
  with assms show ?thesis
    by (simp add: get_job_details_def map_of_convert split: option.splits)
qed

lemma ObjectId_example:
  "ObjectId ''507f1f77bcf86cd799439011''
     = Some (Oid [80, 127, 31, 119, 188, 248, 108, 215, 153, 67, 144, 17])"
  by (simp add: ObjectId_def isspace_def digit_value_def)

lemma ObjectId_example_upper:
  "ObjectId ''507F1F77BCF86CD799439011''
     = Some (Oid [80, 127, 31, 119, 188, 248, 108, 215, 153, 67, 144, 17])"
  by (simp add: ObjectId_def isspace_def digit_value_def)

lemma str_ObjectId_example:
  "str_ObjectId (Oid [80, 127, 31, 119, 188, 248, 108, 215, 153, 67, 144, 17])
     = ''507f1f77bcf86cd799439011''"
  by (simp add: str_ObjectId_def hexlify_def hexdigits_def)

lemma ObjectId_malformed: "ObjectId ''not-a-valid-id'' = None"
  by (simp add: ObjectId_def)

text \<open>
  C2: a path string that does not convert to a native identifier is answered with
  status 400 and detail "Invalid job ID", and the store is not queried, whatever it holds.
\<close>

theorem invalid_id_rejected:
  "ObjectId ident = None \<Longrightarrow>
   get_job_details find_one_jobs ident = (Inl (Http (HTTPException 400 ''Invalid job ID'')), []) \<and>
   http_status (fst (get_job_details find_one_jobs ident)) = 400"
  by (simp add: get_job_details_def)

theorem invalid_id_rejected_witness:
  "ObjectId ''not-a-valid-id'' = None \<and>
   get_job_details (find_one [[(''_id'', PObjectId (Oid [80, 127, 31, 119, 188, 248, 108, 215, 153, 67, 144, 17]))]])
       ''not-a-valid-id''
     = (Inl (Http (HTTPException 400 ''Invalid job ID'')), [])"
  using invalid_id_rejected
    [of "''not-a-valid-id''"
        "find_one [[(''_id'', PObjectId (Oid [80, 127, 31, 119, 188, 248, 108, 215, 153, 67, 144, 17]))]]"]
    ObjectId_malformed
  by simp

text \<open>
  C3: for a well-formed identifier whose lookup finds a record \<open>R\<close>, the handler returns
  (status 200) the four fields: \<open>job_id\<close> the identifier as a string, \<open>title\<close> and
  \<open>description\<close> the normalized \<open>jobTitle\<close> and \<open>plainTextJobDescription\<close> of
  \<open>R\<close> or null when absent, \<open>questions\<close> the normalized \<open>questions\<close> of \<open>R\<close> or
  the empty sequence when absent; the store was queried once.
\<close>

theorem job_projection:
  "ObjectId ident = Some oid \<Longrightarrow> find_one jobs oid = Some R \<Longrightarrow>
   get_job_details (find_one jobs) ident =
     (Inr (PDict
        [(''job_id'', PStr (str_ObjectId oid)),
         (''title'', case map_of R ''jobTitle'' of None \<Rightarrow> PNone | Some v \<Rightarrow> convert_objectid v),
         (''description'',
            case map_of R ''plainTextJobDescription'' of None \<Rightarrow> PNone | Some v \<Rightarrow> convert_objectid v),
         (''questions'',
            case map_of R ''questions'' of None \<Rightarrow> PList [] | Some v \<Rightarrow> convert_objectid v)]),
      [oid]) \<and>
   http_status (fst (get_job_details (find_one jobs) ident)) = 200"
  using get_job_details_found [of ident oid "find_one jobs" R] find_one_id [of jobs oid R]
  by simp

theorem job_projection_witness:
  "get_job_details
     (find_one
        [[(''_id'', PObjectId (Oid [80, 127, 31, 119, 188, 248, 108, 215, 153, 67, 144, 17])),
          (''jobTitle'', PStr ''Engineer''),
          (''plainTextJobDescription'', PStr ''Build things''),
          (''questions'', PList [PDict [(''questionText'', PStr ''Why?'')]])]])
     ''507f1f77bcf86cd799439011''
   = (Inr (PDict
        [(''job_id'', PStr ''507f1f77bcf86cd799439011''),
         (''title'', PStr ''Engineer''),
         (''description'', PStr ''Build things''),
         (''questions'', PList [PDict [(''questionText'', PStr ''Why?'')]])]),
      [Oid [80, 127, 31, 119, 188, 248, 108, 215, 153, 67, 144, 17]]) \<and>
   get_job_details
     (find_one
        [[(''_id'', PObjectId (Oid [80, 127, 31, 119, 188, 248, 108, 215, 153, 67, 144, 17])),
          (''owner'', PObjectId (Oid [1, 2, 3]))]])
     ''507f1f77bcf86cd799439011''
   = (Inr (PDict
        [(''job_id'', PStr ''507f1f77bcf86cd799439011''),
         (''title'', PNone),
         (''description'', PNone),
         (''questions'', PList [])]),
      [Oid [80, 127, 31, 119, 188, 248, 108, 215, 153, 67, 144, 17]])"
proof -
  let ?X = "Oid [80, 127, 31, 119, 188, 248, 108, 215, 153, 67, 144, 17]"
  let ?R = "[(''_id'', PObjectId ?X), (''jobTitle'', PStr ''Engineer''),
          (''plainTextJobDescription'', PStr ''Build things''),
          (''questions'', PList [PDict [(''questionText'', PStr ''Why?'')]])]"
  let ?Q = "[(''_id'', PObjectId ?X), (''owner'', PObjectId (Oid [1, 2, 3]))]"
  have r: "find_one [?R] ?X = Some ?R" by (simp add: find_one_def)
  have q: "find_one [?Q] ?X = Some ?Q" by (simp add: find_one_def)
  from job_projection [OF ObjectId_example r] job_projection [OF ObjectId_example q]
  show ?thesis by (simp add: str_ObjectId_example)
qed

text \<open>
  C4: for a well-formed identifier for which the query finds no record, the handler
  fails with status 404 and detail "Job not found"; no body is returned.
\<close>

theorem job_not_found:
  "ObjectId ident = Some oid \<Longrightarrow> find_one_jobs oid = None \<Longrightarrow>
   get_job_details find_one_jobs ident = (Inl (Http (HTTPException 404 ''Job not found'')), [oid]) \<and>
   http_status (fst (get_job_details find_one_jobs ident)) = 404"
  by (simp add: get_job_details_def)

theorem job_not_found_witness:
  "ObjectId ''507f1f77bcf86cd799439011''
     = Some (Oid [80, 127, 31, 119, 188, 248, 108, 215, 153, 67, 144, 17]) \<and>
   find_one [[(''_id'', PObjectId (Oid [1, 2, 3])), (''jobTitle'', PStr ''Engineer'')]]
       (Oid [80, 127, 31, 119, 188, 248, 108, 215, 153, 67, 144, 17]) = None \<and>
   get_job_details (find_one [[(''_id'', PObjectId (Oid [1, 2, 3])), (''jobTitle'', PStr ''Engineer'')]])
       ''507f1f77bcf86cd799439011''
     = (Inl (Http (HTTPException 404 ''Job not found'')),
        [Oid [80, 127, 31, 119, 188, 248, 108, 215, 153, 67, 144, 17]])"
proof -
  have none: "find_one [[(''_id'', PObjectId (Oid [1, 2, 3])), (''jobTitle'', PStr ''Engineer'')]]
       (Oid [80, 127, 31, 119, 188, 248, 108, 215, 153, 67, 144, 17]) = None"
    by (simp add: find_one_def)
  from job_not_found
      [of "''507f1f77bcf86cd799439011''" "Oid [80, 127, 31, 119, 188, 248, 108, 215, 153, 67, 144, 17]"
          "find_one [[(''_id'', PObjectId (Oid [1, 2, 3])), (''jobTitle'', PStr ''Engineer'')]]"]
    ObjectId_example none
  show ?thesis by simp
qed

text \<open>
  C10: in a successful response to a well-formed identifier string, \<open>job_id\<close> is the
  string form of the converted identifier, which has lowercase hexadecimal digits only;
  and for some input (24 hexadecimal digits with uppercase letters) it differs from the
  path string supplied.
\<close>

theorem job_id_canonical:
  "(ObjectId ident = Some oid \<longrightarrow> fst (get_job_details (find_one jobs) ident) = Inr body \<longrightarrow>
      (\<exists>items. body = PDict items \<and> map_of items ''job_id'' = Some (PStr (str_ObjectId oid))) \<and>
      set (str_ObjectId oid) \<subseteq> set ''0123456789abcdef'') \<and>
   (\<exists>s js items. fst (get_job_details (find_one js) s) = Inr (PDict items) \<and>
      map_of items ''job_id'' \<noteq> Some (PStr s))"
proof (intro conjI impI)
  assume oid: "ObjectId ident = Some oid"
    and ok: "fst (get_job_details (find_one jobs) ident) = Inr body"
  from oid ok obtain R where R: "find_one jobs oid = Some R"
    by (cases "find_one jobs oid") (auto simp: get_job_details_def)
  from get_job_details_found [of ident oid "find_one jobs" R] oid R find_one_id [OF R] ok
  show "\<exists>items. body = PDict items \<and> map_of items ''job_id'' = Some (PStr (str_ObjectId oid))"
    by auto
  show "set (str_ObjectId oid) \<subseteq> set ''0123456789abcdef''"
    using set_hexlify [of "binary oid"] by (simp add: str_ObjectId_def hexdigits_def)
next
  let ?X = "Oid [80, 127, 31, 119, 188, 248, 108, 215, 153, 67, 144, 17]"
  have r: "find_one [[(''_id'', PObjectId ?X)]] ?X = Some [(''_id'', PObjectId ?X)]"
    by (simp add: find_one_def)
  from get_job_details_found [of _ ?X "find_one [[(''_id'', PObjectId ?X)]]", OF ObjectId_example_upper r]
  have "fst (get_job_details (find_one [[(''_id'', PObjectId ?X)]]) ''507F1F77BCF86CD799439011'')
      = Inr (PDict [(''job_id'', PStr ''507f1f77bcf86cd799439011''), (''title'', PNone),
           (''description'', PNone), (''questions'', PList [])])"
    by (simp add: str_ObjectId_example)
  moreover have "map_of [(''job_id'', PStr ''507f1f77bcf86cd799439011''), (''title'', PNone),
           (''description'', PNone), (''questions'', PList [])] ''job_id''
      \<noteq> Some (PStr ''507F1F77BCF86CD799439011'')" by simp
  ultimately show "\<exists>s js items. fst (get_job_details (find_one js) s) = Inr (PDict items) \<and>
      map_of items ''job_id'' \<noteq> Some (PStr s)" by blast
qed

theorem job_id_canonical_witness:
  "ObjectId ''507F1F77BCF86CD799439011''
     = Some (Oid [80, 127, 31, 119, 188, 248, 108, 215, 153, 67, 144, 17]) \<and>
   fst (get_job_details
          (find_one [[(''_id'', PObjectId (Oid [80, 127, 31, 119, 188, 248, 108, 215, 153, 67, 144, 17]))]])
          ''507F1F77BCF86CD799439011'')
     = Inr (PDict [(''job_id'', PStr ''507f1f77bcf86cd799439011''), (''title'', PNone),
           (''description'', PNone), (''questions'', PList [])]) \<and>
   set ''507f1f77bcf86cd799439011'' \<subseteq> set ''0123456789abcdef''"
proof -
  let ?X = "Oid [80, 127, 31, 119, 188, 248, 108, 215, 153, 67, 144, 17]"
  let ?B = "PDict [(''job_id'', PStr ''507f1f77bcf86cd799439011''), (''title'', PNone),
           (''description'', PNone), (''questions'', PList [])]"
  have r: "find_one [[(''_id'', PObjectId ?X)]] ?X = Some [(''_id'', PObjectId ?X)]"
    by (simp add: find_one_def)
  from get_job_details_found [of _ ?X "find_one [[(''_id'', PObjectId ?X)]]", OF ObjectId_example_upper r]
  have b: "fst (get_job_details (find_one [[(''_id'', PObjectId ?X)]]) ''507F1F77BCF86CD799439011'') = Inr ?B"
    by (simp add: str_ObjectId_example)
  from job_id_canonical [of "''507F1F77BCF86CD799439011''" ?X "[[(''_id'', PObjectId ?X)]]" ?B]
    ObjectId_example_upper b
  show ?thesis by (simp add: str_ObjectId_example)
qed

section \<open>Properties of the completion proxy\<close>

text \<open>
  Whatever status other than 200 the upstream answers with, the exception the handler
  raises for it is caught by the handler's own last \<^verbatim>\<open>except\<close> clause and replaced by
  one of status 500.
\<close>

lemma upstream_error_any_status:
  "post (outbound_request cfg request) = Inr r \<Longrightarrow> resp_status_code r \<noteq> 200 \<Longrightarrow>
   fst (openai_proxy cfg str_http post request)
     = Inl (Http (HTTPException 500
         (''Internal server error: ''
            @ str_http (resp_status_code r) (''OpenAI API error: '' @ resp_text r))))"
  by (simp add: openai_proxy_def try_block_def)

text \<open>
  C1: the claim is that an upstream reply of status 429 and body "rate limited" is
  answered with status 429. The handler answers it with status 500: the detail is
  "Internal server error: " followed by what \<^verbatim>\<open>str\<close> prints for the exception of
  status 429 that was caught.
\<close>

theorem upstream_error_status_masked:
  "openai_proxy cfg str_http
     (\<lambda>sent. Inr \<lparr>resp_status_code = 429, resp_text = ''rate limited'', resp_json = j\<rparr>) request
   = (Inl (Http (HTTPException 500
        (''Internal server error: '' @ str_http 429 ''OpenAI API error: rate limited''))),
      [outbound_request cfg request]) \<and>
   http_status (fst (openai_proxy cfg str_http
     (\<lambda>sent. Inr \<lparr>resp_status_code = 429, resp_text = ''rate limited'', resp_json = j\<rparr>) request))
   \<noteq> 429"
  by (simp add: openai_proxy_def try_block_def)

text \<open>
  C5: the payload sent upstream has exactly the fields \<open>model\<close>, \<open>messages\<close> (the
  role and content of each message of the request, in order), \<open>max_tokens\<close> and
  \<open>temperature\<close>, with \<open>model\<close> "gpt-4o" and \<open>max_tokens\<close> 1000 when the client left
  them out and \<open>temperature\<close> 0.7 always; exactly one request is sent; and when the
  upstream answers with status 200 and a body that decodes, the handler returns the
  decoded body as it is (status 200).
\<close>

theorem proxy_payload_and_relay:
  "snd (openai_proxy cfg str_http post (OpenAIRequest_init m t msgs))
     = [outbound_request cfg (OpenAIRequest_init m t msgs)] \<and>
   json_payload (outbound_request cfg (OpenAIRequest_init m t msgs))
     = PDict
         [(''model'', PStr (case m of None \<Rightarrow> ''gpt-4o'' | Some x \<Rightarrow> x)),
          (''messages'',
             PList (map (\<lambda>msg. PDict [(''role'', PStr (role msg)), (''content'', PStr (content msg))])
                      msgs)),
          (''max_tokens'', PInt (case t of None \<Rightarrow> 1000 | Some x \<Rightarrow> x)),
          (''temperature'', PFloat (7 / 10))] \<and>
   (post (outbound_request cfg (OpenAIRequest_init m t msgs)) = Inr r \<longrightarrow>
    resp_status_code r = 200 \<longrightarrow> resp_json r = Inr body \<longrightarrow>
      fst (openai_proxy cfg str_http post (OpenAIRequest_init m t msgs)) = Inr body \<and>
      http_status (fst (openai_proxy cfg str_http post (OpenAIRequest_init m t msgs))) = 200)"
  by (simp add: openai_proxy_def try_block_def outbound_request_def payload_def
      OpenAIRequest_init_def)

theorem proxy_payload_and_relay_witness:
  "snd (openai_proxy \<lparr>OPENAI_API_KEY = ''sk-test'', OPENAI_API_URL = Some ''https://upstream''\<rparr>
          (\<lambda>s d. d)
          (\<lambda>sent. Inr \<lparr>resp_status_code = 200, resp_text = ''{\"id\":\"abc\"}'',
                        resp_json = Inr (PDict [(''id'', PStr ''abc'')])\<rparr>)
          (OpenAIRequest_init None None [\<lparr>role = ''user'', content = ''Hi''\<rparr>]))
     = [\<lparr>url = Some ''https://upstream'',
         headers = [(''Authorization'', ''Bearer sk-test''), (''Content-Type'', ''application/json'')],
         json_payload =
           PDict [(''model'', PStr ''gpt-4o''),
                  (''messages'', PList [PDict [(''role'', PStr ''user''), (''content'', PStr ''Hi'')]]),
                  (''max_tokens'', PInt 1000),
                  (''temperature'', PFloat (7 / 10))],
         timeout = 60\<rparr>] \<and>
   fst (openai_proxy \<lparr>OPENAI_API_KEY = ''sk-test'', OPENAI_API_URL = Some ''https://upstream''\<rparr>
          (\<lambda>s d. d)
          (\<lambda>sent. Inr \<lparr>resp_status_code = 200, resp_text = ''{\"id\":\"abc\"}'',
                        resp_json = Inr (PDict [(''id'', PStr ''abc'')])\<rparr>)
          (OpenAIRequest_init None None [\<lparr>role = ''user'', content = ''Hi''\<rparr>]))
     = Inr (PDict [(''id'', PStr ''abc'')])"
  using proxy_payload_and_relay
    [of "\<lparr>OPENAI_API_KEY = ''sk-test'', OPENAI_API_URL = Some ''https://upstream''\<rparr>"
        "\<lambda>s d. d"
        "\<lambda>sent. Inr \<lparr>resp_status_code = 200, resp_text = ''{\"id\":\"abc\"}'',
                        resp_json = Inr (PDict [(''id'', PStr ''abc'')])\<rparr>"
        None None "[\<lparr>role = ''user'', content = ''Hi''\<rparr>]"
        "\<lparr>resp_status_code = 200, resp_text = ''{\"id\":\"abc\"}'',
                        resp_json = Inr (PDict [(''id'', PStr ''abc'')])\<rparr>"
        "PDict [(''id'', PStr ''abc'')]"]
  by (simp add: outbound_request_def)

text \<open>
  C9: when the upstream answers with status 200 and a body that does not decode as JSON,
  the handler does not return the body: it fails with status 500 and the detail
  "Internal server error: " followed by the decoder's message.
\<close>

theorem undecodable_body_is_500:
  "post (outbound_request cfg request) = Inr r \<Longrightarrow> resp_status_code r = 200 \<Longrightarrow>
   resp_json r = Inl msg \<Longrightarrow>
   fst (openai_proxy cfg str_http post request)
     = Inl (Http (HTTPException 500 (''Internal server error: '' @ msg))) \<and>
   http_status (fst (openai_proxy cfg str_http post request)) = 500"
  by (simp add: openai_proxy_def try_block_def)

theorem undecodable_body_is_500_witness:
  "fst (openai_proxy \<lparr>OPENAI_API_KEY = ''sk-test'', OPENAI_API_URL = Some ''https://upstream''\<rparr>
          (\<lambda>s d. d)
          (\<lambda>sent. Inr \<lparr>resp_status_code = 200, resp_text = ''<html>'',
                        resp_json = Inl ''Expecting value: line 1 column 1 (char 0)''\<rparr>)
          (OpenAIRequest_init None None [\<lparr>role = ''user'', content = ''Hi''\<rparr>]))
     = Inl (Http (HTTPException 500
         ''Internal server error: Expecting value: line 1 column 1 (char 0)''))"
  using undecodable_body_is_500
    [of "\<lambda>sent. Inr \<lparr>resp_status_code = 200, resp_text = ''<html>'',
                        resp_json = Inl ''Expecting value: line 1 column 1 (char 0)''\<rparr>"
        "\<lparr>OPENAI_API_KEY = ''sk-test'', OPENAI_API_URL = Some ''https://upstream''\<rparr>"
        "OpenAIRequest_init None None [\<lparr>role = ''user'', content = ''Hi''\<rparr>]"
        "\<lparr>resp_status_code = 200, resp_text = ''<html>'',
                        resp_json = Inl ''Expecting value: line 1 column 1 (char 0)''\<rparr>"
        "''Expecting value: line 1 column 1 (char 0)''" "\<lambda>s d. d"]
  by simp

end
